theory Spec2Isabelle
  imports Complex_Main
begin

section \<open>The substitution engine of the pharmacy inventory manager\<close>

text \<open>
  This theory embeds the class \<open>SubstitutionEngine\<close> (services/substitutionEngine.ts) and
  the interfaces it works on (types/pharmacy.ts).

  Conventions of the embedding.
  \<^item> A TypeScript \<open>number\<close> is a rational: arithmetic is exact. Rounding and overflow of
    IEEE doubles are not part of the model.
  \<^item> A TypeScript \<open>string\<close> is a \<open>string\<close> whose characters are the code units
    \<open>0x00\<close> to \<open>0xFF\<close> (Basic Latin and Latin-1 Supplement). On these code units
    \<open>toLowerCase\<close>, \<open>\d\<close>, \<open>\s\<close> and the case-insensitive flag of the regular
    expression are modelled exactly; strings with other code units are outside the model.
  \<^item> An optional field or an omitted argument is an \<open>option\<close>; \<open>None\<close> is
    \<open>undefined\<close> (or \<open>null\<close> where the source uses that).
\<close>

subsection \<open>Strings\<close>

definition lower_char :: "char \<Rightarrow> char" where
  \<comment> \<open>\<open>A\<close>-\<open>Z\<close> and the capital letters \<open>0xC0\<close>-\<open>0xDE\<close> (without the
      multiplication sign \<open>0xD7\<close>) have their small letter 32 code units later.\<close>
  "lower_char c =
     (let n = (of_char c :: nat)
      in if (65 \<le> n \<and> n \<le> 90) \<or> (192 \<le> n \<and> n \<le> 222 \<and> n \<noteq> 215)
         then char_of (n + 32) else c)"

definition toLowerCase :: "string \<Rightarrow> string" where
  "toLowerCase s = map lower_char s"

fun startsWith :: "string \<Rightarrow> string \<Rightarrow> bool" where
  \<comment> \<open>\<open>startsWith s p\<close>: \<open>p\<close> is a prefix of \<open>s\<close>.\<close>
  "startsWith s [] = True"
| "startsWith [] (p # ps) = False"
| "startsWith (c # cs) (p # ps) = (c = p \<and> startsWith cs ps)"

fun includes_str :: "string \<Rightarrow> string \<Rightarrow> bool" where
  \<comment> \<open>\<open>String.prototype.includes\<close>: the second string occurs in the first.\<close>
  "includes_str [] p = startsWith [] p"
| "includes_str (c # cs) p = (startsWith (c # cs) p \<or> includes_str cs p)"

definition substring04 :: "string \<Rightarrow> string" where
  \<comment> \<open>\<open>s.substring(0, 4)\<close>\<close>
  "substring04 s = take 4 s"

subsection \<open>The dosage pattern\<close>

text \<open>
  \<open>parseStrength\<close> matches \<open>/(\d+(?:\.\d+)?)\s*(mg|g|ml|mcg|\<mu>g)/i\<close> against the
  dosage. The pattern is not anchored: the match is the one at the leftmost start position
  that has one. At a fixed start position every quantifier is greedy and backtracking finds
  nothing new: after a shorter run of digits the next character is a digit, after a dropped
  fraction it is a dot, after a shorter run of white space it is white space, and none of
  these starts a unit. At most one alternative of the unit group matches at a position, as
  the alternatives differ within their first two letters. So the match at a start position
  is computed from left to right, each run taken as long as it goes.
\<close>

definition is_digit :: "char \<Rightarrow> bool" where
  "is_digit c = (let n = (of_char c :: nat) in 48 \<le> n \<and> n \<le> 57)"

definition is_space :: "char \<Rightarrow> bool" where
  \<comment> \<open>\<open>\s\<close> below \<open>0x100\<close>: tab, line feed, vertical tab, form feed, carriage return,
      space, no-break space.\<close>
  "is_space c = (of_char c \<in> {9::nat, 10, 11, 12, 13, 32, 160})"

definition units :: "string list" where
  \<comment> \<open>the alternatives of the second group, in the order of the pattern\<close>
  "units = [''mg'', ''g'', ''ml'', ''mcg'', [CHR 0xB5, CHR ''g'']]"

definition match_unit :: "string \<Rightarrow> string option" where
  \<comment> \<open>the unit at the head of the text, lower-cased (\<open>match[2].toLowerCase()\<close>)\<close>
  "match_unit s = find (\<lambda>u. toLowerCase (take (length u) s) = u) units"

definition match_fraction :: "string \<Rightarrow> string \<times> string" where
  \<comment> \<open>\<open>(?:\.\d+)?\<close>: the digits of the fraction and the rest of the text\<close>
  "match_fraction s =
     (case s of
        [] \<Rightarrow> ([], s)
      | c # cs \<Rightarrow>
          if c = CHR ''.'' \<and> takeWhile is_digit cs \<noteq> []
          then (takeWhile is_digit cs, dropWhile is_digit cs)
          else ([], s))"

definition match_at :: "string \<Rightarrow> ((string \<times> string) \<times> string) option" where
  \<comment> \<open>the match that starts at the head of the text: the digits before and after the dot
      (group 1) and the lower-cased unit (group 2)\<close>
  "match_at s =
     (let ds = takeWhile is_digit s
      in if ds = [] then None
         else let (fs, r) = match_fraction (dropWhile is_digit s)
              in case match_unit (dropWhile is_space r) of
                   None \<Rightarrow> None
                 | Some u \<Rightarrow> Some ((ds, fs), u))"

text \<open>
  The pattern itself, at a fixed start position: a text matches with the groups
  \<open>ds\<close>, \<open>fs\<close> and \<open>u\<close> when it is a non-empty run of digits \<open>ds\<close>, then
  nothing or a dot and a non-empty run of digits \<open>fs\<close>, then a run of white space, then a
  word that is the unit \<open>u\<close> up to case, then anything. The function \<open>match_at\<close> is
  shown below to find exactly these matches, so no other way to match exists at the
  position.
\<close>

definition pattern_at :: "string \<Rightarrow> (string \<times> string) \<times> string \<Rightarrow> bool" where
  "pattern_at s m =
     (case m of ((ds, fs), u) \<Rightarrow>
        \<exists>ws w rest.
          s = ds @ (if fs = [] then [] else CHR ''.'' # fs) @ ws @ w @ rest
          \<and> ds \<noteq> [] \<and> list_all is_digit ds \<and> list_all is_digit fs \<and> list_all is_space ws
          \<and> u \<in> set units \<and> length w = length u \<and> toLowerCase w = u)"

fun dosage_match :: "string \<Rightarrow> ((string \<times> string) \<times> string) option" where
  \<comment> \<open>\<open>dosage.match(...)\<close>: the leftmost match\<close>
  "dosage_match [] = None"
| "dosage_match (c # cs) =
     (case match_at (c # cs) of
        Some m \<Rightarrow> Some m
      | None \<Rightarrow> dosage_match cs)"

definition digits_value :: "string \<Rightarrow> nat" where
  "digits_value ds = foldl (\<lambda>v c. 10 * v + (of_char c - 48)) 0 ds"

definition parseFloat :: "string \<times> string \<Rightarrow> rat" where
  \<comment> \<open>\<open>parseFloat\<close> on the text of group 1, given as the digits before and after the dot\<close>
  "parseFloat m =
     (case m of (ds, fs) \<Rightarrow>
        of_nat (digits_value ds) + of_nat (digits_value fs) / of_nat (10 ^ length fs))"

definition parseStrength :: "string \<Rightarrow> rat option" where
  "parseStrength dosage =
     (case dosage_match dosage of
        None \<Rightarrow> None
      | Some (m, unit) \<Rightarrow>
          let v = parseFloat m
          in Some (if unit = ''g'' then v * 1000
                   else if unit = ''mcg'' \<or> unit = [CHR 0xB5, CHR ''g''] then v / 1000
                   else v))"

subsection \<open>The data model\<close>

text \<open>
  The interfaces \<open>Drug\<close>, \<open>SubstitutionRule\<close> and \<open>SubstitutionSuggestion\<close> with all
  their fields. The field \<open>id\<close> of a drug is \<open>drug_id\<close> here; the field \<open>notes\<close>
  of a rule and the fields of a rule that a drug has too carry the prefix \<open>rule_\<close>.
\<close>

record Drug =
  drug_id :: string
  name :: string
  genericName :: string
  brandName :: string
  activeMolecule :: string
  dosage :: string
  dosageForm :: string
  strength :: string
  manufacturer :: string
  barcode :: "string option"
  category :: string
  isControlled :: bool
  requiresPrescription :: bool
  expiryDate :: "string option"
  batchNumber :: "string option"
  stockLevel :: rat
  minStockLevel :: rat
  maxStockLevel :: rat
  unitPrice :: rat
  isCustom :: bool
  createdAt :: string
  updatedAt :: string
  userId :: string

record SubstitutionRule =
  rule_id :: string
  rule_activeMolecule :: string
  rule_dosage :: string
  rule_dosageForm :: string
  equivalentDrugs :: "string list"
  substitutionRatio :: rat
  rule_notes :: "string option"
  isActive :: bool
  rule_createdAt :: string
  rule_userId :: string

datatype MatchType = Exact | Equivalent | Similar

text \<open>
  The texts the engine builds are template literals. A text is kept as the sequence of its
  parts: runs of characters, the arrow U+2192 (which is not a code unit below \<open>0x100\<close>),
  and the numbers the template formats, either with \<open>toFixed(1)\<close> or by the default
  conversion. How a number is written in decimal is not modelled.
\<close>

datatype piece = Lit string | Arrow | Fixed1 rat | Num rat

type_synonym message = "piece list"

record SubstitutionSuggestion =
  drug :: Drug
  matchType :: MatchType
  confidence :: rat
  reason :: message
  dosageAdjustment :: "message option"
  warnings :: "message list option"

record SubstitutionEngine =
  drugs :: "Drug list"
  substitutionRules :: "SubstitutionRule list"

datatype js_error = TypeError

subsection \<open>The helpers of the engine\<close>

definition truthy :: "rat option \<Rightarrow> bool" where
  \<comment> \<open>a \<open>number | null\<close> used as a condition: \<open>null\<close> and \<open>0\<close> are false\<close>
  "truthy v = (case v of None \<Rightarrow> False | Some x \<Rightarrow> x \<noteq> 0)"

definition calculateEquivalentConfidence :: "Drug \<Rightarrow> Drug \<Rightarrow> rat" where
  "calculateEquivalentConfidence target candidate =
     (let confidence = 80;
          confidence =
            (if toLowerCase (dosageForm target) = toLowerCase (dosageForm candidate)
             then confidence + 10 else confidence);
          targetStrength = parseStrength (dosage target);
          candidateStrength = parseStrength (dosage candidate);
          confidence =
            (if truthy targetStrength \<and> truthy candidateStrength
             then let ratio = min (the targetStrength) (the candidateStrength)
                              / max (the targetStrength) (the candidateStrength)
                  in confidence + of_int \<lfloor>ratio * 10\<rfloor>
             else confidence);
          confidence =
            (if brandName target \<noteq> [] \<and> brandName candidate \<noteq> [] then confidence + 5
             else if brandName target = [] \<and> brandName candidate = [] then confidence + 5
             else confidence)
      in min confidence 90)"

definition calculateDosageAdjustment :: "Drug \<Rightarrow> Drug \<Rightarrow> message option" where
  "calculateDosageAdjustment target candidate =
     (let targetStrength = parseStrength (dosage target);
          candidateStrength = parseStrength (dosage candidate)
      in if \<not> truthy targetStrength \<or> \<not> truthy candidateStrength then None
         else let ratio = the targetStrength / the candidateStrength
              in if ratio = 1 then None
                 else if ratio > 1
                 then Some [Lit ''Take '', Fixed1 ratio,
                            Lit (''x the usual dose ('' @ dosage candidate @ '' ''), Arrow,
                            Lit ('' equivalent to '' @ dosage target @ '')'')]
                 else Some [Lit ''Take '', Fixed1 (1 / ratio),
                            Lit (''x less ('' @ dosage candidate @ '' ''), Arrow,
                            Lit ('' equivalent to '' @ dosage target @ '')'')])"

definition getSubstitutionWarnings :: "Drug \<Rightarrow> Drug \<Rightarrow> message list" where
  "getSubstitutionWarnings target candidate =
     (if toLowerCase (dosageForm target) \<noteq> toLowerCase (dosageForm candidate)
      then [[Lit (''Different dosage form: '' @ dosageForm target @ '' ''), Arrow,
             Lit ('' '' @ dosageForm candidate)]]
      else [])
     @ (if isControlled target \<or> isControlled candidate
        then [[Lit ''Controlled substance - verify prescription requirements'']]
        else [])
     @ (if manufacturer target \<noteq> manufacturer candidate
           \<and> includes_str (toLowerCase (category target)) ''cardiac''
        then [[Lit ''Different manufacturer - monitor patient response'']]
        else [])"

definition is_small_letter :: "char \<Rightarrow> bool" where
  \<comment> \<open>the class \<open>[a-z]\<close>\<close>
  "is_small_letter c = (let n = (of_char c :: nat) in 97 \<le> n \<and> n \<le> 122)"

definition clean_name :: "string \<Rightarrow> string" where
  \<comment> \<open>\<open>name.toLowerCase().replace(/[^a-z]/g, '')\<close>\<close>
  "clean_name n = filter is_small_letter (toLowerCase n)"

definition haveSimilarNames :: "string \<Rightarrow> string \<Rightarrow> bool" where
  "haveSimilarNames name1 name2 =
     (let clean1 = clean_name name1;
          clean2 = clean_name name2
      in includes_str clean1 (substring04 clean2) \<or> includes_str clean2 (substring04 clean1))"

definition calculateTherapeuticSimilarity :: "Drug \<Rightarrow> Drug \<Rightarrow> rat" where
  "calculateTherapeuticSimilarity target candidate =
     (let similarity = 40;
          similarity =
            (if toLowerCase (dosageForm target) = toLowerCase (dosageForm candidate)
             then similarity + 20 else similarity);
          similarity =
            (if haveSimilarNames (genericName target) (genericName candidate)
             then similarity + 15 else similarity)
      in min similarity 75)"

definition findSimilarByTherapeuticClass :: "Drug \<Rightarrow> Drug list \<Rightarrow> (Drug \<times> rat) list" where
  "findSimilarByTherapeuticClass target searchPool =
     filter (\<lambda>item. snd item \<ge> 30)
       (map (\<lambda>d. (d, calculateTherapeuticSimilarity target d))
          (filter (\<lambda>d. toLowerCase (category d) = toLowerCase (category target)
                       \<and> toLowerCase (activeMolecule d) \<noteq> toLowerCase (activeMolecule target))
             searchPool))"

definition rule_suggestion :: "SubstitutionRule \<Rightarrow> Drug \<Rightarrow> SubstitutionSuggestion" where
  \<comment> \<open>the suggestion pushed for a resolved identifier\<close>
  "rule_suggestion rule d =
     \<lparr>drug = d, matchType = Equivalent, confidence = 85,
      reason = [Lit (''Custom substitution rule: '' @
         (case rule_notes rule of
            None \<Rightarrow> ''Pharmacy-approved equivalent''
          | Some n \<Rightarrow> if n = [] then ''Pharmacy-approved equivalent'' else n))],
      dosageAdjustment =
        (if substitutionRatio rule \<noteq> 1
         then Some [Lit ''Adjust dose by factor of '', Num (substitutionRatio rule)]
         else None),
      warnings = None\<rparr>"

definition rule_suggestions :: "SubstitutionRule \<Rightarrow> Drug list \<Rightarrow> SubstitutionSuggestion list" where
  \<comment> \<open>the body of \<open>applicableRules.forEach\<close>: one suggestion for every listed identifier
      that \<open>searchPool.find\<close> resolves\<close>
  "rule_suggestions rule searchPool =
     concat (map (\<lambda>drugId.
        case find (\<lambda>d. drug_id d = drugId) searchPool of
          None \<Rightarrow> []
        | Some d \<Rightarrow> [rule_suggestion rule d])
       (equivalentDrugs rule))"

definition applySubstitutionRules ::
  "SubstitutionEngine \<Rightarrow> Drug \<Rightarrow> Drug list \<Rightarrow> SubstitutionSuggestion list" where
  "applySubstitutionRules this target searchPool =
     (let applicableRules =
            filter (\<lambda>rule. isActive rule
                      \<and> toLowerCase (rule_activeMolecule rule) = toLowerCase (activeMolecule target)
                      \<and> rule_dosage rule = dosage target
                      \<and> toLowerCase (rule_dosageForm rule) = toLowerCase (dosageForm target))
              (substitutionRules this)
      in concat (map (\<lambda>rule. rule_suggestions rule searchPool) applicableRules))"

subsection \<open>Merging: \<open>deduplicateAndSort\<close>\<close>

fun unique_from :: "string set \<Rightarrow> SubstitutionSuggestion list \<Rightarrow> SubstitutionSuggestion list" where
  \<comment> \<open>the filter over \<open>suggestions\<close>, with the set \<open>seen\<close> it updates as it goes\<close>
  "unique_from seen [] = []"
| "unique_from seen (s # ss) =
     (if drug_id (drug s) \<in> seen then unique_from seen ss
      else s # unique_from (insert (drug_id (drug s)) seen) ss)"

text \<open>
  \<open>Array.prototype.sort\<close> is stable. With a comparator that is a total preorder the result
  of a stable sort is determined, so the sort is modelled by insertion: an element goes in
  front of the first element that the comparator does not order before it.
\<close>

fun insert_by :: "('a \<Rightarrow> 'a \<Rightarrow> rat) \<Rightarrow> 'a \<Rightarrow> 'a list \<Rightarrow> 'a list" where
  "insert_by cmp x [] = [x]"
| "insert_by cmp x (y # ys) =
     (if cmp x y \<le> 0 then x # y # ys else y # insert_by cmp x ys)"

definition array_sort :: "('a \<Rightarrow> 'a \<Rightarrow> rat) \<Rightarrow> 'a list \<Rightarrow> 'a list" where
  "array_sort cmp xs = foldr (insert_by cmp) xs []"

definition by_confidence :: "SubstitutionSuggestion \<Rightarrow> SubstitutionSuggestion \<Rightarrow> rat" where
  \<comment> \<open>the comparator \<open>(a, b) => b.confidence - a.confidence\<close>\<close>
  "by_confidence a b = confidence b - confidence a"

definition deduplicateAndSort :: "SubstitutionSuggestion list \<Rightarrow> SubstitutionSuggestion list" where
  "deduplicateAndSort suggestions =
     (let unique = unique_from {} suggestions
      in array_sort by_confidence unique)"

subsection \<open>\<open>findSubstitutes\<close>\<close>

text \<open>
  The body of \<open>findSubstitutes\<close> pushes the suggestions of four passes onto one array, in
  this order, and hands the array to \<open>deduplicateAndSort\<close>. Each pass is a definition here.
\<close>

definition searchPool :: "SubstitutionEngine \<Rightarrow> Drug \<Rightarrow> bool \<Rightarrow> Drug list" where
  "searchPool this targetDrug availableOnly =
     (if availableOnly
      then filter (\<lambda>d. stockLevel d > 0 \<and> drug_id d \<noteq> drug_id targetDrug) (drugs this)
      else filter (\<lambda>d. drug_id d \<noteq> drug_id targetDrug) (drugs this))"

definition exactMatches :: "Drug \<Rightarrow> Drug list \<Rightarrow> Drug list" where
  "exactMatches targetDrug pool =
     filter (\<lambda>d. toLowerCase (activeMolecule d) = toLowerCase (activeMolecule targetDrug)
                  \<and> dosage d = dosage targetDrug
                  \<and> toLowerCase (dosageForm d) = toLowerCase (dosageForm targetDrug))
       pool"

definition exact_suggestion :: "Drug \<Rightarrow> SubstitutionSuggestion" where
  "exact_suggestion d =
     \<lparr>drug = d, matchType = Exact, confidence = 95,
      reason = [Lit (''Same active molecule ('' @ activeMolecule d @ ''), dosage (''
                     @ dosage d @ ''), and form ('' @ dosageForm d @ '')'')],
      dosageAdjustment = None, warnings = None\<rparr>"

definition exactSuggestions :: "Drug \<Rightarrow> Drug list \<Rightarrow> SubstitutionSuggestion list" where
  "exactSuggestions targetDrug pool = map exact_suggestion (exactMatches targetDrug pool)"

definition equivalentMatches :: "Drug \<Rightarrow> Drug list \<Rightarrow> Drug list" where
  \<comment> \<open>\<open>exactMatches.includes(drug)\<close> asks whether this object of the pool passed the filter
      of the first pass; for the values of the model that is membership\<close>
  "equivalentMatches targetDrug pool =
     filter (\<lambda>d. toLowerCase (activeMolecule d) = toLowerCase (activeMolecule targetDrug)
                  \<and> d \<notin> set (exactMatches targetDrug pool))
       pool"

definition equivalent_suggestion :: "Drug \<Rightarrow> Drug \<Rightarrow> SubstitutionSuggestion" where
  "equivalent_suggestion targetDrug d =
     \<lparr>drug = d, matchType = Equivalent,
      confidence = calculateEquivalentConfidence targetDrug d,
      reason = [Lit (''Same active molecule ('' @ activeMolecule d @ '') with ''
                     @ dosage d @ '' '' @ dosageForm d)],
      dosageAdjustment = calculateDosageAdjustment targetDrug d,
      warnings = Some (getSubstitutionWarnings targetDrug d)\<rparr>"

definition equivalentSuggestions :: "Drug \<Rightarrow> Drug list \<Rightarrow> SubstitutionSuggestion list" where
  "equivalentSuggestions targetDrug pool =
     map (equivalent_suggestion targetDrug) (equivalentMatches targetDrug pool)"

definition similar_suggestion :: "Drug \<times> rat \<Rightarrow> SubstitutionSuggestion" where
  "similar_suggestion item =
     \<lparr>drug = fst item, matchType = Similar, confidence = snd item,
      reason = [Lit (''Similar therapeutic class ('' @ category (fst item) @ '')'')],
      dosageAdjustment = None,
      warnings = Some [[Lit ''Different active molecule - consult pharmacist before substitution'']]\<rparr>"

definition similarSuggestions :: "Drug \<Rightarrow> Drug list \<Rightarrow> SubstitutionSuggestion list" where
  "similarSuggestions targetDrug pool =
     map similar_suggestion (findSimilarByTherapeuticClass targetDrug pool)"

definition allSuggestions :: "SubstitutionEngine \<Rightarrow> Drug \<Rightarrow> bool \<Rightarrow> SubstitutionSuggestion list" where
  \<comment> \<open>the array \<open>suggestions\<close> when it is handed to \<open>deduplicateAndSort\<close>\<close>
  "allSuggestions this targetDrug availableOnly =
     (let pool = searchPool this targetDrug availableOnly
      in exactSuggestions targetDrug pool
         @ equivalentSuggestions targetDrug pool
         @ similarSuggestions targetDrug pool
         @ applySubstitutionRules this targetDrug pool)"

definition default_true :: "bool option \<Rightarrow> bool" where
  \<comment> \<open>the value of a parameter declared \<open>availableOnly: boolean = true\<close>\<close>
  "default_true b = (case b of None \<Rightarrow> True | Some v \<Rightarrow> v)"

definition findSubstitutes ::
  "SubstitutionEngine \<Rightarrow> Drug \<Rightarrow> bool option \<Rightarrow> SubstitutionSuggestion list" where
  "findSubstitutes this targetDrug availableOnly =
     deduplicateAndSort (allSuggestions this targetDrug (default_true availableOnly))"

text \<open>
  The parameter \<open>targetDrug\<close> has the type \<open>Drug\<close>. The next definition is the call as it
  runs when the caller passes \<open>null\<close> all the same. Nothing in the body tests the target.
  It is first read in the callback that builds the search pool, after \<open>stockLevel > 0\<close>
  when \<open>availableOnly\<close> holds, and reading a property of \<open>null\<close> raises a \<open>TypeError\<close>.
  When no callback gets that far the pool is empty, no callback of the first three passes
  runs, and the target is next read in the filter over the rules, after \<open>rule.isActive\<close>.
\<close>

definition findSubstitutes_untyped ::
  "SubstitutionEngine \<Rightarrow> Drug option \<Rightarrow> bool option \<Rightarrow> js_error + SubstitutionSuggestion list" where
  "findSubstitutes_untyped this targetDrug availableOnly =
     (case targetDrug of
        Some t \<Rightarrow> Inr (findSubstitutes this t availableOnly)
      | None \<Rightarrow>
          if list_ex (\<lambda>d. \<not> default_true availableOnly \<or> stockLevel d > 0) (drugs this)
          then Inl TypeError
          else if list_ex isActive (substitutionRules this) then Inl TypeError
          else Inr (deduplicateAndSort []))"

subsection \<open>Construction and \<open>updateData\<close>\<close>

definition new_SubstitutionEngine ::
  "Drug list \<Rightarrow> SubstitutionRule list option \<Rightarrow> SubstitutionEngine" where
  \<comment> \<open>the constructor; \<open>rules\<close> has the default \<open>[]\<close>\<close>
  "new_SubstitutionEngine ds rules =
     \<lparr>drugs = ds, substitutionRules = (case rules of None \<Rightarrow> [] | Some rs \<Rightarrow> rs)\<rparr>"

definition updateData ::
  "SubstitutionEngine \<Rightarrow> Drug list \<Rightarrow> SubstitutionRule list option \<Rightarrow> SubstitutionEngine" where
  \<comment> \<open>\<open>rules\<close> has the default \<open>[]\<close>\<close>
  "updateData this ds rules =
     this\<lparr>drugs := ds, substitutionRules := (case rules of None \<Rightarrow> [] | Some rs \<Rightarrow> rs)\<rparr>"

subsection \<open>The two divisions, with the divisor checked\<close>




subsection \<open>The strength bonus as a formula\<close>


subsection \<open>A sample catalogue\<close>

text \<open>The concrete inputs at which the theorems below are instantiated.\<close>

definition panadol :: Drug where
  "panadol =
     \<lparr>drug_id = ''d0'', name = ''Panadol 500'', genericName = ''Paracetamol'',
      brandName = ''Panadol'', activeMolecule = ''Paracetamol'', dosage = ''500mg'',
      dosageForm = ''Tablet'', strength = ''500mg'', manufacturer = ''GSK'', barcode = None,
      category = ''Analgesic'', isControlled = False, requiresPrescription = False,
      expiryDate = None, batchNumber = None, stockLevel = 10, minStockLevel = 1,
      maxStockLevel = 100, unitPrice = 1, isCustom = False, createdAt = ''2024-01-01'',
      updatedAt = ''2024-01-01'', userId = ''u1''\<rparr>"

definition generic_paracetamol :: Drug where
  "generic_paracetamol =
     panadol\<lparr>drug_id := ''d1'', brandName := [], manufacturer := ''Generic Co''\<rparr>"

definition paracetamol_250 :: Drug where
  "paracetamol_250 = panadol\<lparr>drug_id := ''d2'', dosage := ''250mg''\<rparr>"

definition ibuprofen :: Drug where
  "ibuprofen =
     panadol\<lparr>drug_id := ''d3'', genericName := ''Ibuprofen'', activeMolecule := ''Ibuprofen''\<rparr>"

definition paracetamol_syrup :: Drug where
  "paracetamol_syrup =
     panadol\<lparr>drug_id := ''d4'', dosage := ''as needed'', dosageForm := ''Syrup''\<rparr>"


definition unnamed_analgesic :: Drug where
  "unnamed_analgesic =
     panadol\<lparr>drug_id := ''d6'', genericName := ''123'', activeMolecule := ''Metamizole''\<rparr>"

definition sample_rule :: SubstitutionRule where
  "sample_rule =
     \<lparr>rule_id = ''r1'', rule_activeMolecule = ''paracetamol'', rule_dosage = ''500mg'',
      rule_dosageForm = ''tablet'', equivalentDrugs = [''d2'', ''d3'', ''d9'', ''d0''],
      substitutionRatio = 2, rule_notes = Some ''approved'', isActive = True,
      rule_createdAt = ''2024-01-01'', rule_userId = ''u1''\<rparr>"

definition sample_engine :: SubstitutionEngine where
  "sample_engine =
     new_SubstitutionEngine
       [panadol, generic_paracetamol, paracetamol_250, ibuprofen] (Some [sample_rule])"


definition codeine :: Drug where
  "codeine = panadol\<lparr>drug_id := ''d7'', activeMolecule := ''Codeine'', category := ''Opioid''\<rparr>"

definition tramadol :: Drug where
  "tramadol = panadol\<lparr>drug_id := ''d8'', activeMolecule := ''Tramadol'', category := ''Opioid''\<rparr>"

definition tie_rule :: SubstitutionRule where
  "tie_rule = sample_rule\<lparr>equivalentDrugs := [''d7'', ''d8'']\<rparr>"

definition tie_engine :: SubstitutionEngine where
  "tie_engine = new_SubstitutionEngine [ibuprofen, codeine, tramadol] (Some [tie_rule])"

definition empty_engine :: SubstitutionEngine where
  "empty_engine = new_SubstitutionEngine [] None"

section \<open>Properties\<close>

subsection \<open>Lists\<close>

lemma find_Some_member: "find P xs = Some x \<Longrightarrow> x \<in> set xs \<and> P x"
  by (induction xs) (auto split: if_splits)

subsection \<open>The matcher finds exactly the matches of the pattern\<close>

lemma lower_char_digit: "is_digit (lower_char c) \<longleftrightarrow> is_digit c"
  by (auto simp: lower_char_def is_digit_def Let_def)

lemma unit_head:
  assumes "u \<in> set units" "length w = length u" "toLowerCase w = u"
  shows "w \<noteq> [] \<and> \<not> is_digit (hd w) \<and> \<not> is_space (hd w) \<and> hd w \<noteq> CHR ''.''"
proof -
  from assms(1) have "u \<noteq> []" by (auto simp: units_def)
  with assms(2) have "w \<noteq> []" by auto
  then obtain c cs where w: "w = c # cs" by (cases w) auto
  with assms have "lower_char c \<in> {CHR ''m'', CHR ''g'', CHR 0xB5}"
    by (auto simp: units_def toLowerCase_def)
  then have "\<not> is_digit (lower_char c)" and "\<not> is_space c" and "c \<noteq> CHR ''.''"
    by (auto simp: is_digit_def is_space_def lower_char_def Let_def split: if_splits)
  with w show ?thesis by (simp add: lower_char_digit)
qed

lemma takeWhile_run:
  assumes "list_all P xs" "ys = [] \<or> \<not> P (hd ys)"
  shows "takeWhile P (xs @ ys) = xs" and "dropWhile P (xs @ ys) = ys"
proof -
  from assms(2) have "takeWhile P ys = []" and "dropWhile P ys = ys"
    by (cases ys; simp)+
  with assms(1) show "takeWhile P (xs @ ys) = xs" and "dropWhile P (xs @ ys) = ys"
    by (simp_all add: list_all_iff takeWhile_append2 dropWhile_append2)
qed

lemma unit_unique:
  assumes "u \<in> set units" "u' \<in> set units"
    and "toLowerCase (take (length u) x) = u" "toLowerCase (take (length u') x) = u'"
  shows "u = u'"
  using assms
  by (cases x; cases "tl x"; cases "tl (tl x)") (auto simp: units_def toLowerCase_def)

lemma match_unit_iff:
  "match_unit x = Some u \<longleftrightarrow> u \<in> set units \<and> toLowerCase (take (length u) x) = u"
proof
  assume "match_unit x = Some u"
  then show "u \<in> set units \<and> toLowerCase (take (length u) x) = u"
    unfolding match_unit_def by (auto dest: find_Some_member)
next
  assume u: "u \<in> set units \<and> toLowerCase (take (length u) x) = u"
  then have "find (\<lambda>u. toLowerCase (take (length u) x) = u) units \<noteq> None"
    by (auto simp: find_None_iff)
  then obtain u' where found: "find (\<lambda>u. toLowerCase (take (length u) x) = u) units = Some u'"
    by auto
  then have "u' \<in> set units \<and> toLowerCase (take (length u') x) = u'"
    by (auto dest: find_Some_member)
  with u have "u = u'" by (blast intro: unit_unique)
  with found show "match_unit x = Some u" by (simp add: match_unit_def)
qed

lemma match_fraction_run:
  assumes "list_all is_digit fs" "r \<noteq> []" "\<not> is_digit (hd r)" "hd r \<noteq> CHR ''.''"
  shows "match_fraction ((if fs = [] then [] else CHR ''.'' # fs) @ r) = (fs, r)"
proof (cases "fs = []")
  case True
  with assms show ?thesis
    by (cases r) (simp_all add: match_fraction_def)
next
  case False
  from assms have "takeWhile is_digit (fs @ r) = fs" and "dropWhile is_digit (fs @ r) = r"
    by (simp_all add: takeWhile_run)
  with False show ?thesis by (simp add: match_fraction_def)
qed

lemma match_fraction_shape:
  assumes "match_fraction s = (fs, r)"
  shows "s = (if fs = [] then [] else CHR ''.'' # fs) @ r \<and> list_all is_digit fs"
proof (cases "s \<noteq> [] \<and> hd s = CHR ''.'' \<and> takeWhile is_digit (tl s) \<noteq> []")
  case True
  then obtain cs where s: "s = CHR ''.'' # cs" and run: "takeWhile is_digit cs \<noteq> []"
    by (cases s) auto
  with assms have "fs = takeWhile is_digit cs" and "r = dropWhile is_digit cs"
    by (simp_all add: match_fraction_def)
  with s run show ?thesis
    by (simp add: list_all_iff) (meson set_takeWhileD)
next
  case False
  with assms have "fs = []" and "r = s"
    by (cases s; auto simp: match_fraction_def split: if_splits)+
  then show ?thesis by simp
qed

theorem match_at_is_the_pattern:
  "match_at s = Some m \<longleftrightarrow> pattern_at s m"
proof
  assume matched: "match_at s = Some m"
  obtain ds fs u where m: "m = ((ds, fs), u)" by (cases m) auto
  obtain fs' r where frac: "match_fraction (dropWhile is_digit s) = (fs', r)"
    by (cases "match_fraction (dropWhile is_digit s)") auto
  from matched m frac have ds: "ds = takeWhile is_digit s" "ds \<noteq> []" and fs: "fs' = fs"
    and unit: "match_unit (dropWhile is_space r) = Some u"
    by (auto simp: match_at_def Let_def split: if_splits option.splits)
  from unit have u: "u \<in> set units"
    "toLowerCase (take (length u) (dropWhile is_space r)) = u"
    by (simp_all add: match_unit_iff)
  define ws where "ws = takeWhile is_space r"
  define w where "w = take (length u) (dropWhile is_space r)"
  define rest where "rest = drop (length u) (dropWhile is_space r)"
  from match_fraction_shape [OF frac] fs
  have shape: "dropWhile is_digit s = (if fs = [] then [] else CHR ''.'' # fs) @ r"
    and digits: "list_all is_digit fs" by simp_all
  have "s = ds @ dropWhile is_digit s" by (simp add: ds)
  also note shape
  also have "r = ws @ w @ rest" by (simp add: ws_def w_def rest_def)
  finally have split: "s = ds @ (if fs = [] then [] else CHR ''.'' # fs) @ ws @ w @ rest"
    by simp
  have runs: "list_all is_digit ds" "list_all is_space ws"
    by (auto simp: ds ws_def list_all_iff dest: set_takeWhileD)
  from u have lower: "toLowerCase w = u" by (simp add: w_def)
  then have len: "length w = length u"
    by (metis length_map toLowerCase_def)
  show "pattern_at s m"
    unfolding pattern_at_def m prod.case
    using split ds(2) runs digits u(1) len lower
    by (intro exI [of _ ws] exI [of _ w] exI [of _ rest]) simp
next
  assume "pattern_at s m"
  then obtain ds fs u ws w rest where m: "m = ((ds, fs), u)"
    and s: "s = ds @ (if fs = [] then [] else CHR ''.'' # fs) @ ws @ w @ rest"
    and ds: "ds \<noteq> []" "list_all is_digit ds" and fs: "list_all is_digit fs"
    and ws: "list_all is_space ws"
    and u: "u \<in> set units" "length w = length u" "toLowerCase w = u"
    by (cases m) (auto simp: pattern_at_def)
  from unit_head [OF u] have w: "w \<noteq> []" "\<not> is_digit (hd w)" "\<not> is_space (hd w)"
    "hd w \<noteq> CHR ''.''" by simp_all
  define r where "r = ws @ w @ rest"
  have r: "r \<noteq> []" "\<not> is_digit (hd r)" "hd r \<noteq> CHR ''.''"
    using w ws by (cases ws; auto simp: r_def is_space_def is_digit_def)+
  define r0 where "r0 = (if fs = [] then [] else CHR ''.'' # fs) @ r"
  have r0: "r0 \<noteq> []" "\<not> is_digit (hd r0)"
    using r by (auto simp: r0_def is_digit_def)
  have "s = ds @ r0" by (simp add: s r0_def r_def)
  with ds r0 have run: "takeWhile is_digit s = ds" "dropWhile is_digit s = r0"
    by (simp_all add: takeWhile_run)
  have frac: "match_fraction r0 = (fs, r)"
    unfolding r0_def using fs r by (rule match_fraction_run)
  from ws w have "dropWhile is_space r = w @ rest"
    unfolding r_def by (simp add: takeWhile_run)
  with u have "match_unit (dropWhile is_space r) = Some u"
    by (simp add: match_unit_iff)
  with run frac ds show "match_at s = Some m"
    by (simp add: match_at_def m)
qed

subsection \<open>Merging keeps the first entry of every identifier\<close>

lemma unique_from_subset: "set (unique_from seen ss) \<subseteq> set ss"
  by (induction ss arbitrary: seen) auto




subsection \<open>The sort is the stable insertion sort on the negated confidence\<close>

lemma insert_by_confidence:
  "insert_by by_confidence x ys = insort_key (\<lambda>s. - confidence s) x ys"
  by (induction ys) (simp_all add: by_confidence_def)

lemma array_sort_by_confidence:
  "array_sort by_confidence xs = sort_key (\<lambda>s. - confidence s) xs"
proof -
  have "insert_by by_confidence = insort_key (\<lambda>s. - confidence s)"
    by (intro ext) (rule insert_by_confidence)
  then show ?thesis by (simp add: array_sort_def sort_key_def)
qed

lemma set_deduplicateAndSort:
  "set (deduplicateAndSort ss) = set (unique_from {} ss)"
  by (simp add: deduplicateAndSort_def array_sort_by_confidence)

subsection \<open>Every suggested drug comes from the search pool\<close>

lemma searchPool_excludes_target:
  "d \<in> set (searchPool this t b) \<Longrightarrow> drug_id d \<noteq> drug_id t"
  by (auto simp: searchPool_def split: if_splits)

lemma drug_rule_suggestion: "drug (rule_suggestion rule d) = d"
  by (simp add: rule_suggestion_def)

lemma rule_suggestions_drug:
  assumes "s \<in> set (rule_suggestions rule pool)"
  shows "drug s \<in> set pool"
proof -
  from assms obtain drugId d
    where "find (\<lambda>d. drug_id d = drugId) pool = Some d" and "s = rule_suggestion rule d"
    by (auto simp: rule_suggestions_def split: option.splits) metis
  then show ?thesis
    by (simp add: drug_rule_suggestion find_Some_member)
qed

lemma applySubstitutionRules_drug:
  "s \<in> set (applySubstitutionRules this t pool) \<Longrightarrow> drug s \<in> set pool"
  by (auto simp: applySubstitutionRules_def dest: rule_suggestions_drug)

lemma exactSuggestions_drug:
  "s \<in> set (exactSuggestions t pool) \<Longrightarrow> drug s \<in> set pool"
  by (auto simp: exactSuggestions_def exactMatches_def exact_suggestion_def)

lemma equivalentSuggestions_drug:
  "s \<in> set (equivalentSuggestions t pool) \<Longrightarrow> drug s \<in> set pool"
  by (auto simp: equivalentSuggestions_def equivalentMatches_def equivalent_suggestion_def)

lemma similarSuggestions_drug:
  "s \<in> set (similarSuggestions t pool) \<Longrightarrow> drug s \<in> set pool"
  by (auto simp: similarSuggestions_def findSimilarByTherapeuticClass_def similar_suggestion_def)

lemma allSuggestions_drug:
  "s \<in> set (allSuggestions this t b) \<Longrightarrow> drug s \<in> set (searchPool this t b)"
  by (auto simp: allSuggestions_def Let_def
      dest: exactSuggestions_drug equivalentSuggestions_drug similarSuggestions_drug
        applySubstitutionRules_drug)

lemma findSubstitutes_subset:
  "set (findSubstitutes this t a) \<subseteq> set (allSuggestions this t (default_true a))"
  by (simp add: findSubstitutes_def set_deduplicateAndSort unique_from_subset)

text \<open>
  Claim C1. Whatever the catalogue, the rules and the flag \<open>availableOnly\<close>: no drug of the
  search pool has the identifier of the target, so no drug that a rule resolves in the pool
  has it, and no suggestion that \<open>findSubstitutes\<close> returns has it.
\<close>

theorem target_never_suggested:
  "(\<forall>d \<in> set (searchPool this targetDrug b). drug_id d \<noteq> drug_id targetDrug)
   \<and> (\<forall>s \<in> set (applySubstitutionRules this targetDrug (searchPool this targetDrug b)).
         drug_id (drug s) \<noteq> drug_id targetDrug)
   \<and> (\<forall>s \<in> set (findSubstitutes this targetDrug availableOnly).
         drug_id (drug s) \<noteq> drug_id targetDrug)"
proof (intro conjI ballI)
  fix d assume "d \<in> set (searchPool this targetDrug b)"
  then show "drug_id d \<noteq> drug_id targetDrug" by (rule searchPool_excludes_target)
next
  fix s assume "s \<in> set (applySubstitutionRules this targetDrug (searchPool this targetDrug b))"
  then have "drug s \<in> set (searchPool this targetDrug b)" by (rule applySubstitutionRules_drug)
  then show "drug_id (drug s) \<noteq> drug_id targetDrug" by (rule searchPool_excludes_target)
next
  fix s assume "s \<in> set (findSubstitutes this targetDrug availableOnly)"
  with findSubstitutes_subset
  have "s \<in> set (allSuggestions this targetDrug (default_true availableOnly))" by blast
  then have "drug s \<in> set (searchPool this targetDrug (default_true availableOnly))"
    by (rule allSuggestions_drug)
  then show "drug_id (drug s) \<noteq> drug_id targetDrug" by (rule searchPool_excludes_target)
qed

text \<open>
  The sample catalogue holds the target itself and a rule that lists the target's
  identifier \<open>d0\<close>; the pool, the rule pass and the result are not empty and do not hold it.
\<close>

theorem target_never_suggested_witness:
  "generic_paracetamol \<in> set (searchPool sample_engine panadol False)
   \<and> drug_id generic_paracetamol \<noteq> drug_id panadol
   \<and> rule_suggestion sample_rule ibuprofen
       \<in> set (applySubstitutionRules sample_engine panadol (searchPool sample_engine panadol False))
   \<and> drug_id (drug (rule_suggestion sample_rule ibuprofen)) \<noteq> drug_id panadol
   \<and> exact_suggestion generic_paracetamol \<in> set (findSubstitutes sample_engine panadol (Some False))
   \<and> drug_id (drug (exact_suggestion generic_paracetamol)) \<noteq> drug_id panadol"
proof -
  have pool: "generic_paracetamol \<in> set (searchPool sample_engine panadol False)"
    by code_simp
  have rule: "rule_suggestion sample_rule ibuprofen
       \<in> set (applySubstitutionRules sample_engine panadol (searchPool sample_engine panadol False))"
    by code_simp
  have out: "exact_suggestion generic_paracetamol
       \<in> set (findSubstitutes sample_engine panadol (Some False))"
    by code_simp
  from target_never_suggested [of sample_engine panadol False "Some False"] pool rule out
  show ?thesis by blast
qed

subsection \<open>The order of the passes decides which entry is kept\<close>

lemma allSuggestions_append:
  "allSuggestions this t b =
     exactSuggestions t (searchPool this t b) @ equivalentSuggestions t (searchPool this t b)
     @ similarSuggestions t (searchPool this t b)
     @ applySubstitutionRules this t (searchPool this t b)"
  by (simp add: allSuggestions_def Let_def)



lemma reason_exactSuggestions:
  "x \<in> set (exactSuggestions t pool) \<Longrightarrow>
   \<exists>n. reason x = [Lit (''Same active molecule ('' @ n)]"
  by (auto simp: exactSuggestions_def exact_suggestion_def)

lemma reason_equivalentSuggestions:
  "x \<in> set (equivalentSuggestions t pool) \<Longrightarrow>
   \<exists>n. reason x = [Lit (''Same active molecule ('' @ n)]"
  by (auto simp: equivalentSuggestions_def equivalent_suggestion_def)





subsection \<open>The sample catalogue, evaluated\<close>




lemma sample_similar:
  "similarSuggestions panadol [generic_paracetamol, paracetamol_250, ibuprofen]
   = [similar_suggestion (ibuprofen, 60)]"
  by code_simp






subsection \<open>A catalogue with a tie\<close>


lemma tie_result:
  "findSubstitutes tie_engine panadol None
   = [rule_suggestion tie_rule codeine, rule_suggestion tie_rule tramadol,
      similar_suggestion (ibuprofen, 60)]"
  by code_simp


subsection \<open>The target is not validated\<close>

lemma deduplicateAndSort_Nil: "deduplicateAndSort [] = []"
  by (simp add: deduplicateAndSort_def array_sort_def)

lemma unique_from_Nil_iff: "unique_from {} ss = [] \<longleftrightarrow> ss = []"
  by (cases ss) simp_all

lemma findSubstitutes_Nil_iff:
  "findSubstitutes this t a = [] \<longleftrightarrow> allSuggestions this t (default_true a) = []"
proof -
  have "findSubstitutes this t a = []
        \<longleftrightarrow> set (unique_from {} (allSuggestions this t (default_true a))) = {}"
    by (simp add: findSubstitutes_def set_deduplicateAndSort flip: set_empty)
  then show ?thesis by (simp add: unique_from_Nil_iff)
qed

lemma allSuggestions_empty_pool:
  "searchPool this t b = [] \<Longrightarrow> allSuggestions this t b = []"
  by (simp add: allSuggestions_def exactSuggestions_def exactMatches_def
      equivalentSuggestions_def equivalentMatches_def similarSuggestions_def
      findSimilarByTherapeuticClass_def applySubstitutionRules_def rule_suggestions_def)

text \<open>
  Claim C4 says that a missing target makes \<open>findSubstitutes\<close> fail with an
  \<open>InvalidInput\<close> condition before anything is computed. The engine has no such
  condition. With a missing target and an empty catalogue the call returns the empty list;
  with the sample catalogue it fails with the \<open>TypeError\<close> of the first callback that
  reads the target.
\<close>

theorem missing_target_counterexample:
  "findSubstitutes_untyped (new_SubstitutionEngine [] None) None None = Inr []
   \<and> findSubstitutes_untyped (new_SubstitutionEngine [] None) None (Some False) = Inr []
   \<and> findSubstitutes_untyped sample_engine None None = Inl TypeError"
  by code_simp

text \<open>
  Claim C4, amended. \<open>findSubstitutes\<close> does not validate its target and has no
  \<open>InvalidInput\<close> condition; the type of the parameter excludes a missing target. For
  every target of that type the call raises no error and returns a list, which is empty
  exactly when no pass finds a candidate, as it is when the search pool is empty. When a
  missing target is passed all the same, the call raises a \<open>TypeError\<close> if the catalogue
  holds a drug whose callback reads the target (any drug, or with \<open>availableOnly\<close> a drug
  in stock) or an active rule, and returns the empty list otherwise.
\<close>

theorem no_validation_of_target:
  "findSubstitutes_untyped this (Some targetDrug) availableOnly
     = Inr (findSubstitutes this targetDrug availableOnly)
   \<and> (findSubstitutes this targetDrug availableOnly = []
        \<longleftrightarrow> allSuggestions this targetDrug (default_true availableOnly) = [])
   \<and> (searchPool this targetDrug (default_true availableOnly) = []
        \<longrightarrow> findSubstitutes this targetDrug availableOnly = [])
   \<and> (findSubstitutes_untyped this None availableOnly = Inl TypeError
        \<longleftrightarrow> (\<exists>d \<in> set (drugs this). default_true availableOnly \<longrightarrow> stockLevel d > 0)
            \<or> (\<exists>r \<in> set (substitutionRules this). isActive r))
   \<and> (findSubstitutes_untyped this None availableOnly \<noteq> Inl TypeError
        \<longrightarrow> findSubstitutes_untyped this None availableOnly = Inr [])"
proof (intro conjI impI)
  show "findSubstitutes_untyped this (Some targetDrug) availableOnly
     = Inr (findSubstitutes this targetDrug availableOnly)"
    by (simp add: findSubstitutes_untyped_def)
  show "findSubstitutes this targetDrug availableOnly = []
        \<longleftrightarrow> allSuggestions this targetDrug (default_true availableOnly) = []"
    by (rule findSubstitutes_Nil_iff)
  show "findSubstitutes this targetDrug availableOnly = []"
    if "searchPool this targetDrug (default_true availableOnly) = []"
    using that by (simp add: findSubstitutes_Nil_iff allSuggestions_empty_pool)
  show "findSubstitutes_untyped this None availableOnly = Inl TypeError
        \<longleftrightarrow> (\<exists>d \<in> set (drugs this). default_true availableOnly \<longrightarrow> stockLevel d > 0)
            \<or> (\<exists>r \<in> set (substitutionRules this). isActive r)"
    by (auto simp: findSubstitutes_untyped_def list_ex_iff)
  show "findSubstitutes_untyped this None availableOnly = Inr []"
    if "findSubstitutes_untyped this None availableOnly \<noteq> Inl TypeError"
    using that by (simp add: findSubstitutes_untyped_def deduplicateAndSort_Nil split: if_splits)
qed

theorem no_validation_of_target_witness:
  "findSubstitutes_untyped empty_engine (Some panadol) None = Inr []
   \<and> searchPool empty_engine panadol True = []
   \<and> findSubstitutes empty_engine panadol None = []
   \<and> findSubstitutes_untyped empty_engine None None = Inr []
   \<and> findSubstitutes_untyped sample_engine None None = Inl TypeError"
proof -
  have pool: "searchPool empty_engine panadol True = []"
    by (simp add: searchPool_def empty_engine_def new_SubstitutionEngine_def)
  have no_reader: "\<not> ((\<exists>d \<in> set (drugs empty_engine). default_true None \<longrightarrow> stockLevel d > 0)
            \<or> (\<exists>r \<in> set (substitutionRules empty_engine). isActive r))"
    by (simp add: empty_engine_def new_SubstitutionEngine_def)
  have reader: "(\<exists>d \<in> set (drugs sample_engine). default_true None \<longrightarrow> stockLevel d > 0)
            \<or> (\<exists>r \<in> set (substitutionRules sample_engine). isActive r)"
    by (simp add: sample_engine_def new_SubstitutionEngine_def sample_rule_def)
  note typed = no_validation_of_target [of empty_engine panadol None]
  note untyped = no_validation_of_target [of sample_engine panadol None]
  from typed pool have empty: "findSubstitutes empty_engine panadol None = []"
    by (simp add: default_true_def)
  from typed empty have "findSubstitutes_untyped empty_engine (Some panadol) None = Inr []"
    by simp
  moreover from typed no_reader have "findSubstitutes_untyped empty_engine None None = Inr []"
    by blast
  moreover from untyped reader have "findSubstitutes_untyped sample_engine None None = Inl TypeError"
    by blast
  ultimately show ?thesis using pool empty by simp
qed

subsection \<open>The confidence of an equivalent match\<close>











subsection \<open>The similar pass\<close>

lemma calculateTherapeuticSimilarity_formula:
  "calculateTherapeuticSimilarity t c =
     min 75 (40
       + (if toLowerCase (dosageForm t) = toLowerCase (dosageForm c) then 20 else 0)
       + (if haveSimilarNames (genericName t) (genericName c) then 15 else 0))"
  by (simp add: calculateTherapeuticSimilarity_def Let_def)

lemma calculateTherapeuticSimilarity_range:
  "30 \<le> calculateTherapeuticSimilarity t c \<and> calculateTherapeuticSimilarity t c \<le> 75"
  by (simp add: calculateTherapeuticSimilarity_def Let_def)

lemma similarSuggestions_drugs:
  "map drug (similarSuggestions t pool) =
     filter (\<lambda>d. toLowerCase (category d) = toLowerCase (category t)
                  \<and> toLowerCase (activeMolecule d) \<noteq> toLowerCase (activeMolecule t)
                  \<and> 30 \<le> calculateTherapeuticSimilarity t d) pool"
  by (induction pool)
    (simp_all add: similarSuggestions_def findSimilarByTherapeuticClass_def similar_suggestion_def)

text \<open>
  Claim C6. Every suggestion of the similar pass has the confidence 40, plus 20 when the
  dosage forms are equal up to case, plus 15 when the generic names are similar, capped at
  75; the confidence lies between 30 and 75; the match type is \<open>Similar\<close> and the
  warnings are the one fixed warning. The drugs of the pass are the drugs of the pool with
  the target's category and another active molecule whose score is at least 30: a
  candidate that scores less is left out.
\<close>

theorem similar_pass_score_type_and_warning:
  "(\<forall>s \<in> set (similarSuggestions targetDrug pool).
      confidence s =
        min 75 (40
          + (if toLowerCase (dosageForm targetDrug) = toLowerCase (dosageForm (drug s))
             then 20 else 0)
          + (if haveSimilarNames (genericName targetDrug) (genericName (drug s))
             then 15 else 0))
      \<and> 30 \<le> confidence s \<and> confidence s \<le> 75
      \<and> matchType s = Similar
      \<and> warnings s =
          Some [[Lit ''Different active molecule - consult pharmacist before substitution'']])
   \<and> map drug (similarSuggestions targetDrug pool) =
       filter (\<lambda>d. toLowerCase (category d) = toLowerCase (category targetDrug)
                    \<and> toLowerCase (activeMolecule d) \<noteq> toLowerCase (activeMolecule targetDrug)
                    \<and> 30 \<le> calculateTherapeuticSimilarity targetDrug d) pool"
proof (intro conjI ballI)
  fix s assume "s \<in> set (similarSuggestions targetDrug pool)"
  then obtain d where s: "s = similar_suggestion (d, calculateTherapeuticSimilarity targetDrug d)"
    by (auto simp: similarSuggestions_def findSimilarByTherapeuticClass_def)
  then have fields: "drug s = d" "confidence s = calculateTherapeuticSimilarity targetDrug d"
    by (simp_all add: similar_suggestion_def)
  show "confidence s =
        min 75 (40
          + (if toLowerCase (dosageForm targetDrug) = toLowerCase (dosageForm (drug s))
             then 20 else 0)
          + (if haveSimilarNames (genericName targetDrug) (genericName (drug s))
             then 15 else 0))"
    unfolding fields by (rule calculateTherapeuticSimilarity_formula)
  show "30 \<le> confidence s" and "confidence s \<le> 75"
    unfolding fields using calculateTherapeuticSimilarity_range by blast+
  show "matchType s = Similar"
    by (simp add: s similar_suggestion_def)
  show "warnings s =
          Some [[Lit ''Different active molecule - consult pharmacist before substitution'']]"
    by (simp add: s similar_suggestion_def)
next
  show "map drug (similarSuggestions targetDrug pool) =
       filter (\<lambda>d. toLowerCase (category d) = toLowerCase (category targetDrug)
                    \<and> toLowerCase (activeMolecule d) \<noteq> toLowerCase (activeMolecule targetDrug)
                    \<and> 30 \<le> calculateTherapeuticSimilarity targetDrug d) pool"
    by (rule similarSuggestions_drugs)
qed

theorem similar_pass_score_type_and_warning_witness:
  "similar_suggestion (ibuprofen, 60)
     \<in> set (similarSuggestions panadol [generic_paracetamol, paracetamol_250, ibuprofen])
   \<and> confidence (similar_suggestion (ibuprofen, 60)) = 60
   \<and> matchType (similar_suggestion (ibuprofen, 60)) = Similar
   \<and> warnings (similar_suggestion (ibuprofen, 60)) =
       Some [[Lit ''Different active molecule - consult pharmacist before substitution'']]
   \<and> map drug (similarSuggestions panadol [generic_paracetamol, paracetamol_250, ibuprofen])
       = [ibuprofen]"
proof -
  have member: "similar_suggestion (ibuprofen, 60)
     \<in> set (similarSuggestions panadol [generic_paracetamol, paracetamol_250, ibuprofen])"
    by (simp add: sample_similar)
  have "confidence (similar_suggestion (ibuprofen, 60)) = 60"
    by (simp add: similar_suggestion_def)
  moreover have "map drug (similarSuggestions panadol [generic_paracetamol, paracetamol_250, ibuprofen])
       = [ibuprofen]"
    by (simp add: sample_similar similar_suggestion_def)
  ultimately show ?thesis
    using member
      similar_pass_score_type_and_warning
        [of panadol "[generic_paracetamol, paracetamol_250, ibuprofen]"]
    by blast
qed

subsection \<open>Dosages that do not parse\<close>

lemma no_bonus_without_strength:
  "\<not> truthy (parseStrength (dosage t)) \<or> \<not> truthy (parseStrength (dosage c)) \<Longrightarrow>
   calculateEquivalentConfidence t c =
     min 90 (80
       + (if toLowerCase (dosageForm t) = toLowerCase (dosageForm c) then 10 else 0)
       + (if (brandName t \<noteq> [] \<and> brandName c \<noteq> []) \<or> (brandName t = [] \<and> brandName c = [])
          then 5 else 0))"
  by (auto simp: calculateEquivalentConfidence_def Let_def)

lemma no_adjustment_without_strength:
  "\<not> truthy (parseStrength (dosage t)) \<or> \<not> truthy (parseStrength (dosage c)) \<Longrightarrow>
   calculateDosageAdjustment t c = None"
  by (auto simp: calculateDosageAdjustment_def Let_def)

lemma equivalentSuggestions_drugs:
  "map drug (equivalentSuggestions t pool) = equivalentMatches t pool"
  by (simp add: equivalentSuggestions_def equivalent_suggestion_def comp_def)

text \<open>
  Claim C7. The parser gives 500 for \<open>500mg\<close>, 1000 for \<open>1g\<close>, 0.05 for
  \<open>50mcg\<close>, 5 for \<open>5ml\<close> and no value for \<open>as needed\<close>. When the dosage of the
  target or of the candidate has no value, the confidence of the equivalent match has no
  strength bonus and there is no dosage adjustment. The pass goes on: it has one
  suggestion for each of its candidates.
\<close>

theorem strength_parsing_and_failure:
  "parseStrength ''500mg'' = Some 500
   \<and> parseStrength ''1g'' = Some 1000
   \<and> parseStrength ''50mcg'' = Some (5 / 100)
   \<and> parseStrength ''5ml'' = Some 5
   \<and> parseStrength ''as needed'' = None
   \<and> (parseStrength (dosage targetDrug) = None \<or> parseStrength (dosage candidate) = None \<longrightarrow>
        calculateEquivalentConfidence targetDrug candidate =
          min 90 (80
            + (if toLowerCase (dosageForm targetDrug) = toLowerCase (dosageForm candidate)
               then 10 else 0)
            + (if (brandName targetDrug \<noteq> [] \<and> brandName candidate \<noteq> [])
                    \<or> (brandName targetDrug = [] \<and> brandName candidate = [])
               then 5 else 0))
        \<and> calculateDosageAdjustment targetDrug candidate = None)
   \<and> map drug (equivalentSuggestions targetDrug pool) = equivalentMatches targetDrug pool"
proof (intro conjI impI)
  show "parseStrength ''500mg'' = Some 500" by code_simp
  show "parseStrength ''1g'' = Some 1000" by code_simp
  show "parseStrength ''50mcg'' = Some (5 / 100)" by code_simp
  show "parseStrength ''5ml'' = Some 5" by code_simp
  show "parseStrength ''as needed'' = None" by code_simp
  show "map drug (equivalentSuggestions targetDrug pool) = equivalentMatches targetDrug pool"
    by (rule equivalentSuggestions_drugs)
next
  assume "parseStrength (dosage targetDrug) = None \<or> parseStrength (dosage candidate) = None"
  then have falsy: "\<not> truthy (parseStrength (dosage targetDrug))
      \<or> \<not> truthy (parseStrength (dosage candidate))"
    by (auto simp: truthy_def)
  show "calculateEquivalentConfidence targetDrug candidate =
          min 90 (80
            + (if toLowerCase (dosageForm targetDrug) = toLowerCase (dosageForm candidate)
               then 10 else 0)
            + (if (brandName targetDrug \<noteq> [] \<and> brandName candidate \<noteq> [])
                    \<or> (brandName targetDrug = [] \<and> brandName candidate = [])
               then 5 else 0))"
    using falsy by (rule no_bonus_without_strength)
  show "calculateDosageAdjustment targetDrug candidate = None"
    using falsy by (rule no_adjustment_without_strength)
qed

lemma syrup_fields:
  "parseStrength (dosage paracetamol_syrup) = None"
  "toLowerCase (dosageForm panadol) \<noteq> toLowerCase (dosageForm paracetamol_syrup)"
  "brandName panadol \<noteq> []"
  "brandName paracetamol_syrup \<noteq> []"
  by code_simp+

theorem strength_parsing_and_failure_witness:
  "parseStrength (dosage paracetamol_syrup) = None
   \<and> calculateEquivalentConfidence panadol paracetamol_syrup = 85
   \<and> calculateDosageAdjustment panadol paracetamol_syrup = None
   \<and> map drug (equivalentSuggestions panadol [paracetamol_syrup, paracetamol_250])
       = [paracetamol_syrup, paracetamol_250]"
proof -
  have matches: "equivalentMatches panadol [paracetamol_syrup, paracetamol_250]
      = [paracetamol_syrup, paracetamol_250]"
    by code_simp
  from strength_parsing_and_failure
    [of panadol paracetamol_syrup "[paracetamol_syrup, paracetamol_250]"]
  show ?thesis
    by (simp add: syrup_fields matches)
qed

subsection \<open>A strength of zero\<close>








subsection \<open>Refreshing the data\<close>

lemma applySubstitutionRules_no_rules:
  "substitutionRules this = [] \<Longrightarrow> applySubstitutionRules this t pool = []"
  by (simp add: applySubstitutionRules_def)

lemma reason_similarSuggestions:
  "x \<in> set (similarSuggestions t pool) \<Longrightarrow>
   \<exists>n. reason x = [Lit (''Similar therapeutic class ('' @ n)]"
  by (auto simp: similarSuggestions_def similar_suggestion_def)

lemma no_rule_reason_without_rules:
  assumes "substitutionRules this = []"
    and "s \<in> set (findSubstitutes this t a)"
  shows "reason s \<noteq> [Lit (''Custom substitution rule: '' @ n)]"
proof -
  let ?pool = "searchPool this t (default_true a)"
  from assms(2) findSubstitutes_subset
  have "s \<in> set (allSuggestions this t (default_true a))" by blast
  with assms(1)
  have "s \<in> set (exactSuggestions t ?pool) \<union> set (equivalentSuggestions t ?pool)
          \<union> set (similarSuggestions t ?pool)"
    by (simp add: allSuggestions_append applySubstitutionRules_no_rules)
  then consider m where "reason s = [Lit (''Same active molecule ('' @ m)]"
    | m where "reason s = [Lit (''Similar therapeutic class ('' @ m)]"
    using reason_exactSuggestions reason_equivalentSuggestions reason_similarSuggestions
    by blast
  then show ?thesis by cases simp_all
qed

text \<open>
  Claim C9. \<open>updateData\<close> replaces the catalogue and the rules, whatever they were. With
  the rules omitted the new rule set is empty, as it is after a construction without rules;
  then the rule pass finds nothing, and no suggestion of a later call of
  \<open>findSubstitutes\<close> has the reason of a custom rule.
\<close>

theorem updateData_replaces_both:
  "updateData this ds None = \<lparr>drugs = ds, substitutionRules = []\<rparr>
   \<and> updateData this ds (Some rs) = \<lparr>drugs = ds, substitutionRules = rs\<rparr>
   \<and> new_SubstitutionEngine ds None = \<lparr>drugs = ds, substitutionRules = []\<rparr>
   \<and> applySubstitutionRules (updateData this ds None) targetDrug pool = []
   \<and> (\<forall>s \<in> set (findSubstitutes (updateData this ds None) targetDrug availableOnly).
         \<forall>n. reason s \<noteq> [Lit (''Custom substitution rule: '' @ n)])"
proof (intro conjI ballI allI)
  show none: "updateData this ds None = \<lparr>drugs = ds, substitutionRules = []\<rparr>"
    by (simp add: updateData_def)
  show "updateData this ds (Some rs) = \<lparr>drugs = ds, substitutionRules = rs\<rparr>"
    by (simp add: updateData_def)
  show "new_SubstitutionEngine ds None = \<lparr>drugs = ds, substitutionRules = []\<rparr>"
    by (simp add: new_SubstitutionEngine_def)
  show "applySubstitutionRules (updateData this ds None) targetDrug pool = []"
    by (simp add: none applySubstitutionRules_no_rules)
  fix s n
  assume "s \<in> set (findSubstitutes (updateData this ds None) targetDrug availableOnly)"
  moreover have "substitutionRules (updateData this ds None) = []"
    by (simp add: none)
  ultimately show "reason s \<noteq> [Lit (''Custom substitution rule: '' @ n)]"
    by (rule no_rule_reason_without_rules [rotated])
qed

lemma refreshed_result:
  "findSubstitutes (updateData tie_engine (drugs tie_engine) None) panadol None
   = [similar_suggestion (ibuprofen, 60)]"
  by code_simp

lemma tie_rules:
  "substitutionRules tie_engine = [tie_rule]"
  by (simp add: tie_engine_def new_SubstitutionEngine_def)

text \<open>
  The engine of the catalogue with a tie has one rule, and two of its three suggestions are
  rule-based. After a refresh with the same catalogue and no rules it has no rule, and the
  one suggestion left is the one of the similar pass.
\<close>

theorem updateData_replaces_both_witness:
  "substitutionRules tie_engine = [tie_rule]
   \<and> findSubstitutes tie_engine panadol None
       = [rule_suggestion tie_rule codeine, rule_suggestion tie_rule tramadol,
          similar_suggestion (ibuprofen, 60)]
   \<and> substitutionRules (updateData tie_engine (drugs tie_engine) None) = []
   \<and> similar_suggestion (ibuprofen, 60)
       \<in> set (findSubstitutes (updateData tie_engine (drugs tie_engine) None) panadol None)
   \<and> reason (similar_suggestion (ibuprofen, 60))
       \<noteq> [Lit (''Custom substitution rule: '' @ ''approved'')]"
proof -
  note general = updateData_replaces_both [of tie_engine "drugs tie_engine" "[]" panadol "[]" None]
  from general
  have "updateData tie_engine (drugs tie_engine) None
        = \<lparr>drugs = drugs tie_engine, substitutionRules = []\<rparr>"
    by blast
  then have rules: "substitutionRules (updateData tie_engine (drugs tie_engine) None) = []"
    by simp
  have member: "similar_suggestion (ibuprofen, 60)
       \<in> set (findSubstitutes (updateData tie_engine (drugs tie_engine) None) panadol None)"
    by (simp add: refreshed_result)
  with general
  have "reason (similar_suggestion (ibuprofen, 60))
       \<noteq> [Lit (''Custom substitution rule: '' @ ''approved'')]"
    by blast
  with rules member show ?thesis
    by (simp add: tie_rules tie_result)
qed

subsection \<open>Names without letters\<close>

lemma startsWith_Nil: "startsWith s [] = True"
  by (cases s) simp_all

lemma includes_str_Nil: "includes_str s [] = True"
  by (cases s) (simp_all add: startsWith_Nil)

lemma haveSimilarNames_no_letters:
  "clean_name name1 = [] \<or> clean_name name2 = [] \<Longrightarrow> haveSimilarNames name1 name2"
  by (auto simp: haveSimilarNames_def Let_def substring04_def includes_str_Nil)

text \<open>
  Claim C10. When the generic name of the target or of the candidate has no letter left
  after cleaning, the two names count as similar, and the similarity has the 15 points of
  the name bonus.
\<close>

theorem name_without_letters_is_similar:
  "clean_name (genericName targetDrug) = [] \<or> clean_name (genericName candidate) = [] \<Longrightarrow>
   haveSimilarNames (genericName targetDrug) (genericName candidate)
   \<and> calculateTherapeuticSimilarity targetDrug candidate =
       min 75 (40
         + (if toLowerCase (dosageForm targetDrug) = toLowerCase (dosageForm candidate)
            then 20 else 0)
         + 15)"
proof -
  assume "clean_name (genericName targetDrug) = [] \<or> clean_name (genericName candidate) = []"
  then have similar: "haveSimilarNames (genericName targetDrug) (genericName candidate)"
    by (rule haveSimilarNames_no_letters)
  then show ?thesis
    by (simp add: calculateTherapeuticSimilarity_formula)
qed

lemma unnamed_fields:
  "clean_name (genericName unnamed_analgesic) = []"
  "toLowerCase (dosageForm panadol) = toLowerCase (dosageForm unnamed_analgesic)"
  "similarSuggestions panadol [unnamed_analgesic] = [similar_suggestion (unnamed_analgesic, 75)]"
  by code_simp+

theorem name_without_letters_is_similar_witness:
  "clean_name (genericName unnamed_analgesic) = []
   \<and> haveSimilarNames (genericName panadol) (genericName unnamed_analgesic)
   \<and> calculateTherapeuticSimilarity panadol unnamed_analgesic = 75
   \<and> similarSuggestions panadol [unnamed_analgesic] = [similar_suggestion (unnamed_analgesic, 75)]"
proof -
  have "clean_name (genericName panadol) = [] \<or> clean_name (genericName unnamed_analgesic) = []"
    by (simp add: unnamed_fields)
  from name_without_letters_is_similar [OF this]
  show ?thesis
    by (simp add: unnamed_fields)
qed

end
